theory Spec2Isabelle
  imports Complex_Main
begin

section \<open>SLO tracking: services/api/app/trace_metrics.py\<close>

text \<open>
  Python floats are modelled as \<^typ>\<open>real\<close>: the comparisons and the arithmetic of the
  module are read as exact (no rounding, no NaN, no infinities). Strings are \<^typ>\<open>string\<close>.
\<close>

subsection \<open>The SLO catalog\<close>

text \<open>One entry of the dictionary \<open>SLO_DEFINITIONS\<close>.\<close>

record slo_def =
  description :: string
  target :: real
  latency_target :: real
  error_budget :: real
  windows :: "string list"
  endpoints :: "string list"

type_synonym catalog = "string \<rightharpoonup> slo_def"

text \<open>The module-level dictionary, lines 86 to 111.\<close>

definition api_health :: slo_def where
  "api_health =
     \<lparr>description = ''API Health endpoint latency'',
      target = 95 / 100, latency_target = 1 / 10, error_budget = 5 / 100,
      windows = [''5m'', ''1h'', ''24h''],
      endpoints = [''health_check'', ''read_root'', ''/health'']\<rparr>"

definition external_data :: slo_def where
  "external_data =
     \<lparr>description = ''External data retrieval latency'',
      target = 90 / 100, latency_target = 3 / 10, error_budget = 10 / 100,
      windows = [''5m'', ''1h'', ''24h''],
      endpoints = [''get_external_data'']\<rparr>"

definition data_access :: slo_def where
  "data_access =
     \<lparr>description = ''Database access operations latency'',
      target = 95 / 100, latency_target = 2 / 10, error_budget = 5 / 100,
      windows = [''5m'', ''1h'', ''24h''],
      endpoints = [''read_users'', ''read_items'', ''create_user'', ''create_item'']\<rparr>"

definition SLO_DEFINITIONS :: catalog where
  "SLO_DEFINITIONS =
     [''api_health'' \<mapsto> api_health,
      ''external_data'' \<mapsto> external_data,
      ''data_access'' \<mapsto> data_access]"

subsection \<open>The metrics sink and the logger\<close>

text \<open>
  The records handed to \<open>logger\<close>: the level of the call and the message, kept as the
  format string's identity with the values it interpolates.
\<close>

datatype level = DEBUG | INFO | WARNING

datatype message =
    Slo_not_found string
  | Endpoint_not_in_slo string string
  | Recording_slo string string real bool
  | Endpoint_not_configured string string
  | Slo_performance string string real real bool string
  | Invalid_window string
  | Unknown_slo string
  | Budget_critically_low string real string
  | Budget_below_50 string real string

text \<open>
  The Prometheus objects the two functions write to, by label tuple: the histogram
  \<open>SLO_LATENCY_BUCKET\<close> (the samples observed, in order), the counter
  \<open>SLO_ERROR_COUNTER\<close>, the gauges \<open>SLO_COMPLIANCE\<close> and \<open>SLO_ERROR_BUDGET\<close>
  (unset until the first \<open>set\<close>), and the log records emitted so far.
\<close>

record sink =
  SLO_LATENCY_BUCKET :: "string \<times> string \<Rightarrow> real list"
  SLO_ERROR_COUNTER :: "string \<times> string \<Rightarrow> nat"
  SLO_COMPLIANCE :: "string \<times> string \<times> string \<rightharpoonup> real"
  SLO_ERROR_BUDGET :: "string \<times> string \<rightharpoonup> real"
  logger :: "(level \<times> message) list"

definition empty_sink :: sink where
  "empty_sink =
     \<lparr>SLO_LATENCY_BUCKET = (\<lambda>_. []), SLO_ERROR_COUNTER = (\<lambda>_. 0),
      SLO_COMPLIANCE = Map.empty, SLO_ERROR_BUDGET = Map.empty, logger = []\<rparr>"

definition emit :: "level \<Rightarrow> message \<Rightarrow> sink \<Rightarrow> sink" where
  "emit l m s = s\<lparr>logger := logger s @ [(l, m)]\<rparr>"

text \<open>\<open>Histogram.labels(endpoint, slo).observe(v)\<close> and \<open>Counter.labels(endpoint, slo).inc()\<close>.\<close>

definition observe :: "string \<times> string \<Rightarrow> real \<Rightarrow> sink \<Rightarrow> sink" where
  "observe k v s = s\<lparr>SLO_LATENCY_BUCKET := (SLO_LATENCY_BUCKET s)(k := SLO_LATENCY_BUCKET s k @ [v])\<rparr>"

definition inc :: "string \<times> string \<Rightarrow> sink \<Rightarrow> sink" where
  "inc k s = s\<lparr>SLO_ERROR_COUNTER := (SLO_ERROR_COUNTER s)(k := SLO_ERROR_COUNTER s k + 1)\<rparr>"

text \<open>
  What a call does: the exception it raises, if any, and the sink as the call leaves it
  (writes made before a raise stay made).
\<close>

datatype error = ZeroDivisionError

type_synonym outcome = "error option \<times> sink"

definition raised :: "outcome \<Rightarrow> bool" where
  "raised r = (fst r \<noteq> None)"

subsection \<open>\<open>track_request_for_slo\<close>, lines 248 to 292\<close>

text \<open>
  \<open>trace_id\<close> is what the current OpenTelemetry span gives (or \<open>''unknown''\<close>); it only
  reaches the last debug record. Every entry of the catalog is a non-empty dictionary
  with an \<open>endpoints\<close> key, so \<open>not slo_def\<close> is the test for a missing name. The
  second membership test, at line 262, is kept where the source has it.
\<close>

definition track_request_for_slo ::
  "catalog \<Rightarrow> string \<Rightarrow> sink \<Rightarrow> string \<Rightarrow> string \<Rightarrow> real \<Rightarrow> bool \<Rightarrow> outcome" where
  "track_request_for_slo defs trace_id s endpoint slo_name latency is_error =
     (case defs slo_name of
        None \<Rightarrow> (None, emit DEBUG (Slo_not_found slo_name) s)
      | Some slo_def \<Rightarrow>
          if endpoint \<notin> set (endpoints slo_def)
          then (None, emit DEBUG (Endpoint_not_in_slo endpoint slo_name) s)
          else
            let s1 = emit DEBUG (Recording_slo slo_name endpoint latency is_error) s in
            if endpoint \<notin> set (endpoints slo_def)
            then (None, emit WARNING (Endpoint_not_configured endpoint slo_name) s1)
            else
              let s2 = observe (endpoint, slo_name) latency s1;
                  s3 = (if is_error then inc (endpoint, slo_name) s2 else s2);
                  target_ms = latency_target slo_def * 1000;
                  latency_ms = latency * 1000;
                  is_within_slo = (latency \<le> latency_target slo_def)
              in (None, emit DEBUG
                    (Slo_performance slo_name endpoint latency_ms target_ms is_within_slo trace_id) s3))"

subsection \<open>\<open>update_slo_compliance\<close>, lines 295 to 344\<close>

text \<open>
  Lines 322 to 326: the remaining budget. Python's float division raises
  \<open>ZeroDivisionError\<close> on a zero divisor; the division is only reached below the target.
\<close>

definition budget_remaining_of :: "real \<Rightarrow> real \<Rightarrow> real \<Rightarrow> error + real" where
  "budget_remaining_of tgt budget compliance_ratio =
     (if compliance_ratio < tgt
      then (if budget = 0 then Inl ZeroDivisionError
            else let budget_used_ratio = (tgt - compliance_ratio) / budget
                 in Inr (max 0 (1 - budget_used_ratio)))
      else Inr 1)"

text \<open>Lines 335 to 344: the log record for a low budget.\<close>

definition log_budget :: "string \<Rightarrow> string \<Rightarrow> real \<Rightarrow> sink \<Rightarrow> sink" where
  "log_budget slo_name window budget_remaining s =
     (if budget_remaining < 2 / 10
      then emit WARNING (Budget_critically_low slo_name budget_remaining window) s
      else if budget_remaining < 5 / 10
      then emit INFO (Budget_below_50 slo_name budget_remaining window) s
      else s)"

definition update_slo_compliance ::
  "catalog \<Rightarrow> sink \<Rightarrow> string \<Rightarrow> string \<Rightarrow> real \<Rightarrow> string \<Rightarrow> outcome" where
  "update_slo_compliance defs s endpoint slo_name compliance_ratio window =
     (if window \<notin> set [''immediate'', ''5m'', ''1h'', ''24h'']
      then (None, emit WARNING (Invalid_window window) s)
      else case defs slo_name of
        None \<Rightarrow> (None, emit WARNING (Unknown_slo slo_name) s)
      | Some slo_def \<Rightarrow>
          let s1 = s\<lparr>SLO_COMPLIANCE :=
                      (SLO_COMPLIANCE s)((endpoint, slo_name, window) \<mapsto> compliance_ratio)\<rparr>
          in if window \<noteq> ''immediate''
             then (case budget_remaining_of (target slo_def) (error_budget slo_def) compliance_ratio of
                     Inl e \<Rightarrow> (Some e, s1)
                   | Inr budget_remaining \<Rightarrow>
                       (None, log_budget slo_name window budget_remaining
                          (s1\<lparr>SLO_ERROR_BUDGET :=
                                (SLO_ERROR_BUDGET s1)((slo_name, window) \<mapsto> budget_remaining)\<rparr>)))
             else (None, s1))"

section \<open>Trace analysis: scripts/trace_analyze.py\<close>

subsection \<open>A Jaeger trace as the script reads it\<close>

text \<open>
  The script reads every key with \<open>dict.get\<close>, so each key may be missing: a field is
  an option and \<open>get_default\<close> is \<open>d.get(key, default)\<close>. Times and durations are
  integers (microseconds). A tag's key and value are JSON scalars, since a tag value may
  be a string, a boolean or a number.
\<close>

definition get_default :: "'a option \<Rightarrow> 'a \<Rightarrow> 'a" where
  "get_default v dflt = (case v of None \<Rightarrow> dflt | Some x \<Rightarrow> x)"

datatype json = JNull | JBool bool | JNum int | JStr string

record tag =
  tag_key :: "json option"
  tag_value :: "json option"

record span_log =
  log_timestamp :: "int option"
  log_fields :: "tag list option"

record span =
  operationName :: "string option"
  processID :: "string option"
  startTime :: "int option"
  duration :: "int option"
  tags :: "tag list option"
  logs :: "span_log list option"

record process =
  serviceName :: "string option"

type_synonym process_table = "string \<rightharpoonup> process"

record trace =
  traceID :: "string option"
  spans :: "span list option"
  processes :: "process_table option"

subsection \<open>The analysis record\<close>

record cp_entry =
  cp_service :: string
  cp_operation :: string
  cp_duration :: int
  cp_start :: int
  cp_end :: int

record error_entry =
  err_service :: string
  err_operation :: string
  err_duration :: int
  err_logs :: "span_log list"

record long_operation =
  lo_service :: string
  lo_operation :: string
  lo_duration_ms :: real

record analysis =
  trace_id :: string
  span_count :: nat
  total_duration_ms :: real
  services :: "string list"
  service_count :: nat
  service_durations :: "(string \<times> real) list"
  errors :: "error_entry list"
  critical_path :: "cp_entry list"
  long_operations :: "long_operation list"

subsection \<open>\<open>analyze_trace\<close>, lines 72 to 183\<close>

text \<open>
  \<open>process_id and process_id in processes\<close>: the span has a non-empty \<open>processID\<close>
  that is a key of the process table; the result is then \<open>processes[process_id]\<close>.
\<close>

definition resolve_process :: "process_table \<Rightarrow> span \<Rightarrow> process option" where
  "resolve_process procs sp =
     (case processID sp of
        None \<Rightarrow> None
      | Some process_id \<Rightarrow> if process_id = [] then None else procs process_id)"

text \<open>
  Lines 86 to 91. \<open>service_spans\<close> is a \<open>defaultdict(list)\<close>: an association list in
  insertion order, a new service name entering at the end.
\<close>

fun append_to :: "string \<Rightarrow> span \<Rightarrow> (string \<times> span list) list \<Rightarrow> (string \<times> span list) list" where
  "append_to k sp [] = [(k, [sp])]"
| "append_to k sp ((k', sps) # rest) =
     (if k = k' then (k', sps @ [sp]) # rest else (k', sps) # append_to k sp rest)"

fun service_spans_loop ::
  "process_table \<Rightarrow> span list \<Rightarrow> (string \<times> span list) list \<Rightarrow> (string \<times> span list) list" where
  "service_spans_loop procs [] service_spans = service_spans"
| "service_spans_loop procs (sp # rest) service_spans =
     (case resolve_process procs sp of
        Some pr \<Rightarrow>
          service_spans_loop procs rest
            (append_to (get_default (serviceName pr) ''unknown'') sp service_spans)
      | None \<Rightarrow> service_spans_loop procs rest service_spans)"

text \<open>
  The service of a span as the three later loops compute it (lines 117 to 120, 141 to
  144, 159 to 162): \<open>''unknown''\<close> unless the process resolves.
\<close>

definition service_of :: "process_table \<Rightarrow> span \<Rightarrow> string" where
  "service_of procs sp =
     (case resolve_process procs sp of
        None \<Rightarrow> ''unknown''
      | Some pr \<Rightarrow> get_default (serviceName pr) ''unknown'')"

text \<open>Lines 109 to 129: the loop over the sorted spans, with its two variables.\<close>

fun critical_path_loop ::
  "process_table \<Rightarrow> span list \<Rightarrow> cp_entry list \<times> int \<Rightarrow> cp_entry list \<times> int" where
  "critical_path_loop procs [] st = st"
| "critical_path_loop procs (sp # rest) (path, current_end) =
     (let start = get_default (startTime sp) 0;
          end_time = start + get_default (duration sp) 0
      in if start \<ge> current_end
         then critical_path_loop procs rest
                (path @
                   [\<lparr>cp_service = service_of procs sp,
                     cp_operation = get_default (operationName sp) ''unknown'',
                     cp_duration = get_default (duration sp) 0,
                     cp_start = start, cp_end = end_time\<rparr>],
                 end_time)
         else critical_path_loop procs rest (path, current_end))"

text \<open>Lines 134 to 138: the scan of a span's tags, leaving at the first match.\<close>

fun has_error :: "tag list \<Rightarrow> bool" where
  "has_error [] = False"
| "has_error (tg # rest) =
     (if tag_key tg = Some (JStr ''error'') \<and> tag_value tg = Some (JStr ''true'')
      then True else has_error rest)"

text \<open>Lines 132 to 151.\<close>

fun errors_loop :: "process_table \<Rightarrow> span list \<Rightarrow> error_entry list \<Rightarrow> error_entry list" where
  "errors_loop procs [] errs = errs"
| "errors_loop procs (sp # rest) errs =
     (if has_error (get_default (tags sp) [])
      then errors_loop procs rest
             (errs @
                [\<lparr>err_service = service_of procs sp,
                  err_operation = get_default (operationName sp) ''unknown'',
                  err_duration = get_default (duration sp) 0,
                  err_logs = get_default (logs sp) []\<rparr>])
      else errors_loop procs rest errs)"

text \<open>Lines 154 to 168; \<open>/\<close> is Python's true division.\<close>

fun long_operations_loop ::
  "process_table \<Rightarrow> span list \<Rightarrow> long_operation list \<Rightarrow> long_operation list" where
  "long_operations_loop procs [] ops = ops"
| "long_operations_loop procs (sp # rest) ops =
     (let duration_ms = real_of_int (get_default (duration sp) 0) / 1000
      in if duration_ms > 100
         then long_operations_loop procs rest
                (ops @
                   [\<lparr>lo_service = service_of procs sp,
                     lo_operation = get_default (operationName sp) ''unknown'',
                     lo_duration_ms = duration_ms\<rparr>])
         else long_operations_loop procs rest ops)"

text \<open>
  \<open>sorted(xs, key=f)\<close> is the stable \<^const>\<open>sort_key\<close>; \<open>xs.sort(key=f, reverse=True)\<close>
  sorts descending and keeps equal keys in their original order.
\<close>

definition sort_reverse :: "('a \<Rightarrow> 'k::linorder) \<Rightarrow> 'a list \<Rightarrow> 'a list" where
  "sort_reverse f xs = rev (sort_key f (rev xs))"

definition analyze_trace :: "trace \<Rightarrow> analysis" where
  "analyze_trace tr =
     (let spans_list = get_default (spans tr) [];
          procs = get_default (processes tr) Map.empty;
          durations = map (\<lambda>sp. get_default (duration sp) 0) spans_list;
          total_duration = (if durations = [] then 0 else fold max (tl durations) (hd durations));
          service_spans = service_spans_loop procs spans_list [];
          service_durations_us =
            map (\<lambda>(service, svc_spans).
                   (service, sum_list (map (\<lambda>sp. get_default (duration sp) 0) svc_spans)))
              service_spans;
          cp = (if spans_list = [] then []
                else fst (critical_path_loop procs
                            (sort_key (\<lambda>s. get_default (startTime s) 0) spans_list) ([], 0)))
      in \<lparr>trace_id = get_default (traceID tr) ''Unknown'',
          span_count = length spans_list,
          total_duration_ms = real_of_int total_duration / 1000,
          services = map fst service_spans,
          service_count = length service_spans,
          service_durations = map (\<lambda>(svc, dur). (svc, real_of_int dur / 1000)) service_durations_us,
          errors = errors_loop procs spans_list [],
          critical_path = cp,
          long_operations = sort_reverse lo_duration_ms (long_operations_loop procs spans_list [])\<rparr>)"

subsection \<open>The critical path as the specification words it\<close>

text \<open>
  Sort the spans by start time ascending; keep \<open>current_end\<close>, initially 0; take each
  span whose start is at least \<open>current_end\<close> and move \<open>current_end\<close> to its start plus
  its duration; skip the others.
\<close>

definition span_start :: "span \<Rightarrow> int" where
  "span_start sp = get_default (startTime sp) 0"

definition span_duration :: "span \<Rightarrow> int" where
  "span_duration sp = get_default (duration sp) 0"

fun greedy_chain :: "int \<Rightarrow> span list \<Rightarrow> span list" where
  "greedy_chain current_end [] = []"
| "greedy_chain current_end (sp # rest) =
     (if span_start sp \<ge> current_end
      then sp # greedy_chain (span_start sp + span_duration sp) rest
      else greedy_chain current_end rest)"

definition spec_critical_path :: "span list \<Rightarrow> span list" where
  "spec_critical_path sps = greedy_chain 0 (sort_key span_start sps)"

text \<open>The entry the analysis reports for a span of the path.\<close>

definition entry_of :: "process_table \<Rightarrow> span \<Rightarrow> cp_entry" where
  "entry_of procs sp =
     \<lparr>cp_service = service_of procs sp,
      cp_operation = get_default (operationName sp) ''unknown'',
      cp_duration = span_duration sp,
      cp_start = span_start sp,
      cp_end = span_start sp + span_duration sp\<rparr>"

text \<open>The entry the error list reports for a span (lines 146 to 151).\<close>

definition error_entry_of :: "process_table \<Rightarrow> span \<Rightarrow> error_entry" where
  "error_entry_of procs sp =
     \<lparr>err_service = service_of procs sp,
      err_operation = get_default (operationName sp) ''unknown'',
      err_duration = get_default (duration sp) 0,
      err_logs = get_default (logs sp) []\<rparr>"

subsection \<open>Example traces\<close>

definition mk_span :: "string \<Rightarrow> string option \<Rightarrow> int \<Rightarrow> int \<Rightarrow> tag list \<Rightarrow> span" where
  "mk_span operation pid start dur tgs =
     \<lparr>operationName = Some operation, processID = pid, startTime = Some start,
      duration = Some dur, tags = Some tgs, logs = Some []\<rparr>"

definition mk_tag :: "string \<Rightarrow> json \<Rightarrow> tag" where
  "mk_tag k v = \<lparr>tag_key = Some (JStr k), tag_value = Some v\<rparr>"

text \<open>Three spans of one service: 60 to 90, 0 to 50 and 10 to 30, in this order.\<close>

definition overlap_trace :: trace where
  "overlap_trace =
     \<lparr>traceID = Some ''t1'',
      spans = Some [mk_span ''render'' (Some ''p1'') 60 30 [],
                    mk_span ''handle'' (Some ''p1'') 0 50 [],
                    mk_span ''query'' (Some ''p1'') 10 20 []],
      processes = Some [''p1'' \<mapsto> \<lparr>serviceName = Some ''api''\<rparr>]\<rparr>"

text \<open>
  Three spans tagged \<open>error\<close>: with the string \<open>true\<close>, with the string \<open>false\<close>, and
  with the boolean true.
\<close>

definition tagged_trace :: trace where
  "tagged_trace =
     \<lparr>traceID = Some ''t2'',
      spans = Some [mk_span ''a'' (Some ''p1'') 0 10 [mk_tag ''http.method'' (JStr ''GET''),
                                                      mk_tag ''error'' (JStr ''true'')],
                    mk_span ''b'' (Some ''p1'') 20 10 [mk_tag ''error'' (JStr ''false'')],
                    mk_span ''c'' (Some ''p1'') 40 10 [mk_tag ''error'' (JBool True)]],
      processes = Some [''p1'' \<mapsto> \<lparr>serviceName = Some ''api''\<rparr>]\<rparr>"

text \<open>
  Two long, failed spans whose service does not resolve: one without \<open>processID\<close>, one
  whose \<open>processID\<close> is not in the process table.
\<close>

definition orphan_trace :: trace where
  "orphan_trace =
     \<lparr>traceID = Some ''t3'',
      spans = Some [mk_span ''GET /users'' None 0 200000 [mk_tag ''error'' (JStr ''true'')],
                    mk_span ''SELECT'' (Some ''p9'') 300000 150000 [mk_tag ''error'' (JStr ''true'')]],
      processes = Some [''p1'' \<mapsto> \<lparr>serviceName = Some ''api''\<rparr>]\<rparr>"

section \<open>Properties of the SLO tracker\<close>

lemma SLO_DEFINITIONS_api_health: "SLO_DEFINITIONS ''api_health'' = Some api_health"
  by (simp add: SLO_DEFINITIONS_def)

lemma api_health_fields [simp]:
  "target api_health = 95 / 100"
  "error_budget api_health = 5 / 100"
  "latency_target api_health = 1 / 10"
  "endpoints api_health = [''health_check'', ''read_root'', ''/health'']"
  by (simp_all add: api_health_def)

lemma budget_remaining_of_nonzero:
  "budget \<noteq> 0 \<Longrightarrow>
   budget_remaining_of tgt budget c =
     Inr (if tgt \<le> c then 1 else max 0 (1 - (tgt - c) / budget))"
  by (simp add: budget_remaining_of_def Let_def)

lemma log_budget_gauges [simp]:
  "SLO_ERROR_BUDGET (log_budget n w b s) = SLO_ERROR_BUDGET s"
  "SLO_COMPLIANCE (log_budget n w b s) = SLO_COMPLIANCE s"
  "SLO_LATENCY_BUCKET (log_budget n w b s) = SLO_LATENCY_BUCKET s"
  "SLO_ERROR_COUNTER (log_budget n w b s) = SLO_ERROR_COUNTER s"
  by (simp_all add: log_budget_def emit_def)

text \<open>The whole effect of a call for one of the three evaluation windows.\<close>

lemma update_slo_compliance_windowed:
  assumes "defs slo_name = Some d"
    and "error_budget d \<noteq> 0"
    and "window \<in> {''5m'', ''1h'', ''24h''}"
  shows "update_slo_compliance defs s endpoint slo_name c window =
           (None,
            log_budget slo_name window
              (if target d \<le> c then 1 else max 0 (1 - (target d - c) / error_budget d))
              (s\<lparr>SLO_COMPLIANCE := (SLO_COMPLIANCE s)((endpoint, slo_name, window) \<mapsto> c),
                 SLO_ERROR_BUDGET := (SLO_ERROR_BUDGET s)((slo_name, window) \<mapsto>
                   (if target d \<le> c then 1
                    else max 0 (1 - (target d - c) / error_budget d)))\<rparr>))"
proof -
  from assms(3) have w: "window \<in> set [''immediate'', ''5m'', ''1h'', ''24h'']"
    and ni: "window \<noteq> ''immediate''"
    by auto
  show ?thesis
    using assms(1) w ni budget_remaining_of_nonzero [OF assms(2), of "target d" c]
    by (simp add: update_slo_compliance_def Let_def del: set_simps)
qed

lemma budget_formula_bounds:
  fixes b :: real
  assumes "0 < b"
  shows "0 \<le> (if t \<le> c then 1 else max 0 (1 - (t - c) / b))"
    and "(if t \<le> c then 1 else max 0 (1 - (t - c) / b)) \<le> 1"
  using assms by (auto simp: divide_nonneg_pos)

lemma budget_formula_mono:
  fixes b :: real
  assumes "0 < b" and "c1 \<le> c2"
  shows "(if t \<le> c1 then 1 else max 0 (1 - (t - c1) / b))
       \<le> (if t \<le> c2 then 1 else max 0 (1 - (t - c2) / b))"
proof -
  have "(t - c2) / b \<le> (t - c1) / b"
    using assms by (simp add: divide_right_mono)
  moreover have "(0::real) \<le> (t - c1) / b" if "\<not> t \<le> c1"
    using that assms(1) by (simp add: divide_nonneg_pos)
  ultimately show ?thesis
    using assms(2) by auto
qed

text \<open>
  C1. For a catalogued SLO with target \<open>t\<close> and a non-zero error budget \<open>b\<close>, and one
  of the windows 5m, 1h, 24h, the call returns normally and the value it sets on the
  budget gauge for (slo, window) is 1 when the compliance ratio is at least \<open>t\<close>, and
  \<open>max 0 (1 - (t - compliance_ratio) / b)\<close> otherwise.
\<close>

theorem update_slo_compliance_budget_formula:
  assumes "defs slo_name = Some d"
    and "error_budget d \<noteq> 0"
    and "window \<in> {''5m'', ''1h'', ''24h''}"
  shows "\<not> raised (update_slo_compliance defs s endpoint slo_name c window) \<and>
         SLO_ERROR_BUDGET (snd (update_slo_compliance defs s endpoint slo_name c window))
             (slo_name, window) =
           Some (if target d \<le> c then 1
                 else max 0 (1 - (target d - c) / error_budget d))"
  using update_slo_compliance_windowed [of defs slo_name d window s endpoint c] assms
  by (simp add: raised_def)

theorem update_slo_compliance_budget_formula_witness:
  "SLO_ERROR_BUDGET
     (snd (update_slo_compliance SLO_DEFINITIONS empty_sink ''health_check'' ''api_health''
             (93 / 100) ''1h''))
     (''api_health'', ''1h'') = Some (6 / 10)"
  using update_slo_compliance_budget_formula
    [of SLO_DEFINITIONS "''api_health''" api_health "''1h''" empty_sink "''health_check''"
        "93 / 100"]
    SLO_DEFINITIONS_api_health
  by simp

text \<open>
  C2, as the code has it. A window outside immediate, 5m, 1h, 24h makes the call log a
  warning and return normally: nothing is raised and no gauge, histogram or counter
  is written.
\<close>

theorem update_slo_compliance_invalid_window:
  assumes "window \<notin> {''immediate'', ''5m'', ''1h'', ''24h''}"
  shows "\<not> raised (update_slo_compliance defs s endpoint slo_name c window) \<and>
         snd (update_slo_compliance defs s endpoint slo_name c window) =
           s\<lparr>logger := logger s @ [(WARNING, Invalid_window window)]\<rparr>"
  using assms by (simp add: update_slo_compliance_def raised_def emit_def)

theorem update_slo_compliance_invalid_window_witness:
  "snd (update_slo_compliance SLO_DEFINITIONS empty_sink ''health_check'' ''api_health''
          (9 / 10) ''2h'') =
     empty_sink\<lparr>logger := [(WARNING, Invalid_window ''2h'')]\<rparr>"
  using update_slo_compliance_invalid_window
    [of "''2h''" SLO_DEFINITIONS empty_sink "''health_check''" "''api_health''" "9 / 10"]
  by (simp add: empty_sink_def)

text \<open>
  C2 as stated fails: with the window 2h, which is none of 5m, 1h, 24h, the call does
  not raise.
\<close>

theorem update_slo_compliance_invalid_window_counterexample:
  "\<not> raised (update_slo_compliance SLO_DEFINITIONS empty_sink ''health_check'' ''api_health''
               (9 / 10) ''2h'')"
  by (simp add: update_slo_compliance_def raised_def)

lemma track_request_for_slo_unmatched:
  assumes "defs slo_name = None \<or> (\<exists>d. defs slo_name = Some d \<and> endpoint \<notin> set (endpoints d))"
  shows "fst (track_request_for_slo defs tid s endpoint slo_name latency is_error) = None"
    and "\<exists>m. snd (track_request_for_slo defs tid s endpoint slo_name latency is_error) =
               emit DEBUG m s"
  using assms by (auto simp: track_request_for_slo_def)

lemma track_request_for_slo_matched:
  assumes "defs slo_name = Some d" and "endpoint \<in> set (endpoints d)"
  shows "track_request_for_slo defs tid s endpoint slo_name latency is_error =
           (None,
            emit DEBUG
              (Slo_performance slo_name endpoint (latency * 1000) (latency_target d * 1000)
                 (latency \<le> latency_target d) tid)
              ((if is_error then inc (endpoint, slo_name) else id)
                 (observe (endpoint, slo_name) latency
                    (emit DEBUG (Recording_slo slo_name endpoint latency is_error) s))))"
  using assms by (simp add: track_request_for_slo_def Let_def)

lemma emit_metrics [simp]:
  "SLO_LATENCY_BUCKET (emit l m s) = SLO_LATENCY_BUCKET s"
  "SLO_ERROR_COUNTER (emit l m s) = SLO_ERROR_COUNTER s"
  "SLO_COMPLIANCE (emit l m s) = SLO_COMPLIANCE s"
  "SLO_ERROR_BUDGET (emit l m s) = SLO_ERROR_BUDGET s"
  by (simp_all add: emit_def)

lemma observe_metrics [simp]:
  "SLO_LATENCY_BUCKET (observe k v s) = (SLO_LATENCY_BUCKET s)(k := SLO_LATENCY_BUCKET s k @ [v])"
  "SLO_ERROR_COUNTER (observe k v s) = SLO_ERROR_COUNTER s"
  "SLO_COMPLIANCE (observe k v s) = SLO_COMPLIANCE s"
  "SLO_ERROR_BUDGET (observe k v s) = SLO_ERROR_BUDGET s"
  by (simp_all add: observe_def)

lemma inc_metrics [simp]:
  "SLO_LATENCY_BUCKET (inc k s) = SLO_LATENCY_BUCKET s"
  "SLO_ERROR_COUNTER (inc k s) = (SLO_ERROR_COUNTER s)(k := SLO_ERROR_COUNTER s k + 1)"
  "SLO_COMPLIANCE (inc k s) = SLO_COMPLIANCE s"
  "SLO_ERROR_BUDGET (inc k s) = SLO_ERROR_BUDGET s"
  by (simp_all add: inc_def)

text \<open>
  C3, as the code has it. \<open>track_request_for_slo\<close> validates nothing about the latency
  and raises for no input; a negative latency, for a catalogued SLO and one of its
  endpoints, is observed into the histogram like any other sample.
\<close>

theorem track_request_for_slo_never_raises:
  "\<not> raised (track_request_for_slo defs tid s endpoint slo_name latency is_error) \<and>
   (latency < 0 \<and> defs slo_name = Some d \<and> endpoint \<in> set (endpoints d) \<longrightarrow>
      SLO_LATENCY_BUCKET
        (snd (track_request_for_slo defs tid s endpoint slo_name latency is_error))
        (endpoint, slo_name) = SLO_LATENCY_BUCKET s (endpoint, slo_name) @ [latency])"
proof (cases "\<exists>d. defs slo_name = Some d \<and> endpoint \<in> set (endpoints d)")
  case True
  then obtain d' where d': "defs slo_name = Some d'" "endpoint \<in> set (endpoints d')"
    by blast
  show ?thesis
    using track_request_for_slo_matched [of defs slo_name d' endpoint tid s latency is_error] d'
    by (simp add: raised_def)
next
  case False
  then have "defs slo_name = None \<or> (\<exists>d. defs slo_name = Some d \<and> endpoint \<notin> set (endpoints d))"
    by (cases "defs slo_name") auto
  with track_request_for_slo_unmatched(1) [of defs slo_name endpoint tid s latency is_error]
    False
  show ?thesis
    by (auto simp: raised_def)
qed

theorem track_request_for_slo_never_raises_witness:
  "\<not> raised (track_request_for_slo SLO_DEFINITIONS ''unknown'' empty_sink
               ''health_check'' ''api_health'' (- 1) False) \<and>
   SLO_LATENCY_BUCKET
     (snd (track_request_for_slo SLO_DEFINITIONS ''unknown'' empty_sink
             ''health_check'' ''api_health'' (- 1) False))
     (''health_check'', ''api_health'') = [- 1]"
  using track_request_for_slo_never_raises
    [of SLO_DEFINITIONS "''unknown''" empty_sink "''health_check''" "''api_health''" "- 1" False
        api_health]
    SLO_DEFINITIONS_api_health
  by (simp add: empty_sink_def)

text \<open>
  C3 as stated fails: the latency -1 for the endpoint health_check of api_health is
  recorded, and nothing is raised.
\<close>

theorem track_request_for_slo_negative_counterexample:
  "\<not> raised (track_request_for_slo SLO_DEFINITIONS ''unknown'' empty_sink
               ''health_check'' ''api_health'' (- 1) False)"
  by (simp add: track_request_for_slo_def SLO_DEFINITIONS_api_health raised_def Let_def)

text \<open>
  C6. A call for a name outside the catalog, or for an endpoint outside the SLO's
  endpoint list, raises nothing and leaves the histogram, the counter and both gauges
  as they were. Any other call raises nothing, appends exactly the one sample
  \<open>latency\<close> to the histogram child (endpoint, slo_name) and to no other, and adds one
  to the error counter (endpoint, slo_name) when \<open>is_error\<close> holds and leaves the
  counter alone when it does not.
\<close>

theorem track_request_for_slo_effect:
  "\<not> raised (track_request_for_slo defs tid s endpoint slo_name latency is_error) \<and>
   (defs slo_name = None \<or> (\<exists>d. defs slo_name = Some d \<and> endpoint \<notin> set (endpoints d)) \<longrightarrow>
      SLO_LATENCY_BUCKET
        (snd (track_request_for_slo defs tid s endpoint slo_name latency is_error)) =
        SLO_LATENCY_BUCKET s \<and>
      SLO_ERROR_COUNTER
        (snd (track_request_for_slo defs tid s endpoint slo_name latency is_error)) =
        SLO_ERROR_COUNTER s \<and>
      SLO_COMPLIANCE
        (snd (track_request_for_slo defs tid s endpoint slo_name latency is_error)) =
        SLO_COMPLIANCE s \<and>
      SLO_ERROR_BUDGET
        (snd (track_request_for_slo defs tid s endpoint slo_name latency is_error)) =
        SLO_ERROR_BUDGET s) \<and>
   ((\<exists>d. defs slo_name = Some d \<and> endpoint \<in> set (endpoints d)) \<longrightarrow>
      SLO_LATENCY_BUCKET
        (snd (track_request_for_slo defs tid s endpoint slo_name latency is_error)) =
        (SLO_LATENCY_BUCKET s)
          ((endpoint, slo_name) := SLO_LATENCY_BUCKET s (endpoint, slo_name) @ [latency]) \<and>
      SLO_ERROR_COUNTER
        (snd (track_request_for_slo defs tid s endpoint slo_name latency is_error)) =
        (if is_error
         then (SLO_ERROR_COUNTER s)
                ((endpoint, slo_name) := SLO_ERROR_COUNTER s (endpoint, slo_name) + 1)
         else SLO_ERROR_COUNTER s))"
proof (cases "\<exists>d. defs slo_name = Some d \<and> endpoint \<in> set (endpoints d)")
  case True
  then obtain d where d: "defs slo_name = Some d" "endpoint \<in> set (endpoints d)"
    by blast
  show ?thesis
    using track_request_for_slo_matched [of defs slo_name d endpoint tid s latency is_error] d
    by (simp add: raised_def)
next
  case False
  then have un: "defs slo_name = None \<or>
      (\<exists>d. defs slo_name = Some d \<and> endpoint \<notin> set (endpoints d))"
    by (cases "defs slo_name") auto
  from track_request_for_slo_unmatched(2)
         [of defs slo_name endpoint tid s latency is_error] un
  obtain m where m:
    "snd (track_request_for_slo defs tid s endpoint slo_name latency is_error) = emit DEBUG m s"
    by blast
  from track_request_for_slo_unmatched(1)
         [of defs slo_name endpoint tid s latency is_error] un
  have "fst (track_request_for_slo defs tid s endpoint slo_name latency is_error) = None" .
  with m False show ?thesis
    by (auto simp: raised_def)
qed

theorem track_request_for_slo_effect_witness:
  "SLO_LATENCY_BUCKET
     (snd (track_request_for_slo SLO_DEFINITIONS ''unknown'' empty_sink
             ''health_check'' ''api_health'' (5 / 100) True)) =
     (SLO_LATENCY_BUCKET empty_sink)((''health_check'', ''api_health'') := [5 / 100]) \<and>
   SLO_ERROR_COUNTER
     (snd (track_request_for_slo SLO_DEFINITIONS ''unknown'' empty_sink
             ''health_check'' ''api_health'' (5 / 100) True)) =
     (SLO_ERROR_COUNTER empty_sink)((''health_check'', ''api_health'') := 1) \<and>
   SLO_LATENCY_BUCKET
     (snd (track_request_for_slo SLO_DEFINITIONS ''unknown'' empty_sink
             ''read_users'' ''api_health'' (5 / 100) True)) =
     SLO_LATENCY_BUCKET empty_sink \<and>
   SLO_ERROR_COUNTER
     (snd (track_request_for_slo SLO_DEFINITIONS ''unknown'' empty_sink
             ''read_users'' ''payments'' (5 / 100) True)) =
     SLO_ERROR_COUNTER empty_sink"
proof -
  have none: "SLO_DEFINITIONS ''payments'' = None"
    by (simp add: SLO_DEFINITIONS_def)
  have e0: "SLO_LATENCY_BUCKET empty_sink (''health_check'', ''api_health'') = []"
    and c0: "SLO_ERROR_COUNTER empty_sink (''health_check'', ''api_health'') = 0"
    by (simp_all add: empty_sink_def)
  show ?thesis
    using track_request_for_slo_effect
        [of SLO_DEFINITIONS "''unknown''" empty_sink "''health_check''" "''api_health''"
            "5 / 100" True]
      track_request_for_slo_effect
        [of SLO_DEFINITIONS "''unknown''" empty_sink "''read_users''" "''api_health''"
            "5 / 100" True]
      track_request_for_slo_effect
        [of SLO_DEFINITIONS "''unknown''" empty_sink "''read_users''" "''payments''"
            "5 / 100" True]
    by (simp add: SLO_DEFINITIONS_api_health none e0 c0)
qed

text \<open>
  C8. For a catalogued SLO with a positive error budget and a window 5m, 1h or 24h, the
  budget set on the gauge lies between 0 and 1, and of two compliance ratios below
  the target the smaller one gets the smaller (or the same) budget.
\<close>

theorem budget_remaining_bounds_monotone:
  assumes "defs slo_name = Some d"
    and "0 < error_budget d"
    and "window \<in> {''5m'', ''1h'', ''24h''}"
  shows "\<exists>b1 b2.
           SLO_ERROR_BUDGET (snd (update_slo_compliance defs s endpoint slo_name c1 window))
             (slo_name, window) = Some b1 \<and>
           SLO_ERROR_BUDGET (snd (update_slo_compliance defs s endpoint slo_name c2 window))
             (slo_name, window) = Some b2 \<and>
           0 \<le> b1 \<and> b1 \<le> 1 \<and>
           (c1 \<le> c2 \<and> c2 < target d \<longrightarrow> b1 \<le> b2)"
proof -
  from assms(2) have nz: "error_budget d \<noteq> 0"
    by simp
  note upd = update_slo_compliance_windowed [of defs slo_name d window s endpoint, OF assms(1) nz assms(3)]
  let ?f = "\<lambda>c. if target d \<le> c then 1 else max 0 (1 - (target d - c) / error_budget d)"
  have "SLO_ERROR_BUDGET (snd (update_slo_compliance defs s endpoint slo_name c1 window))
          (slo_name, window) = Some (?f c1)"
    by (simp add: upd)
  moreover have "SLO_ERROR_BUDGET (snd (update_slo_compliance defs s endpoint slo_name c2 window))
          (slo_name, window) = Some (?f c2)"
    by (simp add: upd)
  moreover have "0 \<le> ?f c1" and "?f c1 \<le> 1"
    using budget_formula_bounds [OF assms(2), of "target d" c1] by blast+
  moreover have "c1 \<le> c2 \<longrightarrow> ?f c1 \<le> ?f c2"
    using budget_formula_mono [OF assms(2), of c1 c2 "target d"] by blast
  ultimately show ?thesis
    by blast
qed

theorem budget_remaining_bounds_monotone_witness:
  "\<exists>b1 b2.
     SLO_ERROR_BUDGET
       (snd (update_slo_compliance SLO_DEFINITIONS empty_sink ''health_check'' ''api_health''
               (91 / 100) ''24h''))
       (''api_health'', ''24h'') = Some b1 \<and>
     SLO_ERROR_BUDGET
       (snd (update_slo_compliance SLO_DEFINITIONS empty_sink ''health_check'' ''api_health''
               (93 / 100) ''24h''))
       (''api_health'', ''24h'') = Some b2 \<and>
     0 \<le> b1 \<and> b1 \<le> 1 \<and> b1 \<le> b2"
  using budget_remaining_bounds_monotone
    [of SLO_DEFINITIONS "''api_health''" api_health "''24h''" empty_sink "''health_check''"
        "91 / 100" "93 / 100"]
    SLO_DEFINITIONS_api_health
  by simp

text \<open>
  C10. A call with the window immediate raises nothing and leaves the budget gauge as
  it was for every (slo, window) pair; for a catalogued SLO its whole effect is to set
  the compliance gauge for (endpoint, slo, immediate). Whatever the window, a call that
  changes the budget gauge has one of the windows 5m, 1h, 24h.
\<close>

theorem update_slo_compliance_immediate:
  "\<not> raised (update_slo_compliance defs s endpoint slo_name c ''immediate'') \<and>
   SLO_ERROR_BUDGET (snd (update_slo_compliance defs s endpoint slo_name c ''immediate'')) =
     SLO_ERROR_BUDGET s \<and>
   (defs slo_name = Some d \<longrightarrow>
      snd (update_slo_compliance defs s endpoint slo_name c ''immediate'') =
        s\<lparr>SLO_COMPLIANCE := (SLO_COMPLIANCE s)((endpoint, slo_name, ''immediate'') \<mapsto> c)\<rparr>) \<and>
   (SLO_ERROR_BUDGET (snd (update_slo_compliance defs s endpoint slo_name c window)) \<noteq>
      SLO_ERROR_BUDGET s \<longrightarrow> window \<in> {''5m'', ''1h'', ''24h''})"
proof -
  have imm: "\<not> raised (update_slo_compliance defs s endpoint slo_name c ''immediate'') \<and>
     SLO_ERROR_BUDGET (snd (update_slo_compliance defs s endpoint slo_name c ''immediate'')) =
       SLO_ERROR_BUDGET s \<and>
     (defs slo_name = Some d \<longrightarrow>
        snd (update_slo_compliance defs s endpoint slo_name c ''immediate'') =
          s\<lparr>SLO_COMPLIANCE := (SLO_COMPLIANCE s)((endpoint, slo_name, ''immediate'') \<mapsto> c)\<rparr>)"
    by (cases "defs slo_name") (simp_all add: update_slo_compliance_def raised_def Let_def)
  have other: "window \<in> {''5m'', ''1h'', ''24h''}"
    if "SLO_ERROR_BUDGET (snd (update_slo_compliance defs s endpoint slo_name c window)) \<noteq>
          SLO_ERROR_BUDGET s"
  proof (rule ccontr)
    assume "window \<notin> {''5m'', ''1h'', ''24h''}"
    then have "window \<notin> set [''immediate'', ''5m'', ''1h'', ''24h''] \<or> window = ''immediate''"
      by auto
    then have "SLO_ERROR_BUDGET (snd (update_slo_compliance defs s endpoint slo_name c window)) =
        SLO_ERROR_BUDGET s"
    proof
      assume "window \<notin> set [''immediate'', ''5m'', ''1h'', ''24h'']"
      then show ?thesis
        by (simp add: update_slo_compliance_def del: set_simps)
    next
      assume "window = ''immediate''"
      with imm show ?thesis
        by simp
    qed
    with that show False
      by simp
  qed
  from imm other show ?thesis
    by blast
qed

theorem update_slo_compliance_immediate_witness:
  "snd (update_slo_compliance SLO_DEFINITIONS empty_sink ''health_check'' ''api_health'' 1
          ''immediate'') =
     empty_sink\<lparr>SLO_COMPLIANCE := [(''health_check'', ''api_health'', ''immediate'') \<mapsto> 1]\<rparr> \<and>
   SLO_ERROR_BUDGET
     (snd (update_slo_compliance SLO_DEFINITIONS empty_sink ''health_check'' ''api_health'' 1 ''1h''))
     \<noteq> SLO_ERROR_BUDGET empty_sink \<and>
   ''1h'' \<in> {''5m'', ''1h'', ''24h''}"
proof -
  have ch: "SLO_ERROR_BUDGET
     (snd (update_slo_compliance SLO_DEFINITIONS empty_sink ''health_check'' ''api_health'' 1 ''1h''))
     \<noteq> SLO_ERROR_BUDGET empty_sink"
    using update_slo_compliance_windowed
      [of SLO_DEFINITIONS "''api_health''" api_health "''1h''" empty_sink "''health_check''" 1]
      SLO_DEFINITIONS_api_health
    by (simp add: empty_sink_def)
  show ?thesis
    using update_slo_compliance_immediate
      [of SLO_DEFINITIONS empty_sink "''health_check''" "''api_health''" 1 api_health "''1h''"]
      SLO_DEFINITIONS_api_health ch
    by (simp add: empty_sink_def)
qed

section \<open>Properties of the trace analysis\<close>

lemma get_default_simps [simp]:
  "get_default None dflt = dflt"
  "get_default (Some x) dflt = x"
  by (simp_all add: get_default_def)

lemmas example_simps =
  service_of_def resolve_process_def mk_span_def mk_tag_def
  entry_of_def error_entry_of_def span_start_def span_duration_def

subsection \<open>The critical path\<close>

text \<open>The loop of the source, with its accumulator, builds the chain of the specification.\<close>

lemma critical_path_loop_greedy:
  "fst (critical_path_loop procs xs (acc, ce)) =
     acc @ map (entry_of procs) (greedy_chain ce xs)"
  by (induction xs arbitrary: acc ce)
     (simp_all add: Let_def entry_of_def span_start_def span_duration_def)

lemma greedy_chain_head:
  "greedy_chain ce xs = y # ys \<Longrightarrow> ce \<le> span_start y"
  by (induction xs arbitrary: ce) (auto split: if_splits)

lemma greedy_chain_successively:
  "successively (\<lambda>a b. span_start a + span_duration a \<le> span_start b) (greedy_chain ce xs)"
proof (induction xs arbitrary: ce)
  case Nil
  show ?case by simp
next
  case (Cons x xs)
  show ?case
  proof (cases "ce \<le> span_start x")
    case True
    let ?e = "span_start x + span_duration x"
    show ?thesis
    proof (cases "greedy_chain ?e xs")
      case Nil
      with True show ?thesis by simp
    next
      case (Cons y ys)
      from greedy_chain_head [OF Cons] have "?e \<le> span_start y" .
      moreover from Cons.IH [of ?e] Cons
      have "successively (\<lambda>a b. span_start a + span_duration a \<le> span_start b) (y # ys)"
        by simp
      ultimately show ?thesis
        using True Cons by simp
    qed
  next
    case False
    with Cons.IH [of ce] show ?thesis by simp
  qed
qed

lemma critical_path_analyze_trace:
  "critical_path (analyze_trace tr) =
     map (entry_of (get_default (processes tr) Map.empty))
       (spec_critical_path (get_default (spans tr) []))"
proof -
  have k: "(\<lambda>s. get_default (startTime s) 0) = span_start"
    by (rule ext) (simp add: span_start_def)
  show ?thesis
    by (simp add: analyze_trace_def Let_def critical_path_loop_greedy spec_critical_path_def k)
qed

text \<open>
  C4. The critical path of the analysis is, entry by entry, the greedy chain of the
  specification over the spans sorted by start time, started with \<open>current_end = 0\<close>;
  and each entry of the path ends no later than the next one starts.
\<close>

theorem critical_path_greedy:
  "critical_path (analyze_trace tr) =
     map (entry_of (get_default (processes tr) Map.empty))
       (spec_critical_path (get_default (spans tr) [])) \<and>
   (\<forall>i. Suc i < length (critical_path (analyze_trace tr)) \<longrightarrow>
      cp_end (critical_path (analyze_trace tr) ! i)
        \<le> cp_start (critical_path (analyze_trace tr) ! Suc i))"
proof -
  let ?procs = "get_default (processes tr) Map.empty"
  have "successively (\<lambda>a b. cp_end a \<le> cp_start b)
          (map (entry_of ?procs) (spec_critical_path (get_default (spans tr) [])))"
    unfolding successively_map spec_critical_path_def
    using greedy_chain_successively [of 0 "sort_key span_start (get_default (spans tr) [])"]
    by (simp add: entry_of_def)
  then show ?thesis
    unfolding critical_path_analyze_trace successively_conv_nth by blast
qed

theorem critical_path_greedy_witness:
  "critical_path (analyze_trace overlap_trace) =
     [\<lparr>cp_service = ''api'', cp_operation = ''handle'', cp_duration = 50,
        cp_start = 0, cp_end = 50\<rparr>,
      \<lparr>cp_service = ''api'', cp_operation = ''render'', cp_duration = 30,
        cp_start = 60, cp_end = 90\<rparr>] \<and>
   cp_end (critical_path (analyze_trace overlap_trace) ! 0)
     \<le> cp_start (critical_path (analyze_trace overlap_trace) ! Suc 0)"
proof -
  note t = critical_path_greedy [of overlap_trace]
  have eq: "critical_path (analyze_trace overlap_trace) =
     [\<lparr>cp_service = ''api'', cp_operation = ''handle'', cp_duration = 50,
        cp_start = 0, cp_end = 50\<rparr>,
      \<lparr>cp_service = ''api'', cp_operation = ''render'', cp_duration = 30,
        cp_start = 60, cp_end = 90\<rparr>]"
    using t by (simp add: overlap_trace_def spec_critical_path_def example_simps)
  then have "Suc 0 < length (critical_path (analyze_trace overlap_trace))"
    by simp
  with t have "cp_end (critical_path (analyze_trace overlap_trace) ! 0)
     \<le> cp_start (critical_path (analyze_trace overlap_trace) ! Suc 0)"
    by blast
  with eq show ?thesis
    by blast
qed

subsection \<open>Error spans\<close>

lemma has_error_iff:
  "has_error tgs \<longleftrightarrow>
     (\<exists>tg\<in>set tgs. tag_key tg = Some (JStr ''error'') \<and> tag_value tg = Some (JStr ''true''))"
  by (induction tgs) auto

lemma errors_loop_filter:
  "errors_loop procs xs acc =
     acc @ map (error_entry_of procs) (filter (\<lambda>sp. has_error (get_default (tags sp) [])) xs)"
  by (induction xs arbitrary: acc) (simp_all add: error_entry_of_def)

text \<open>
  C9. The error list holds, in the order of the spans, one entry for each span that
  has a tag whose key is the string \<open>error\<close> and whose value is the string \<open>true\<close>,
  and no entry for any other span.
\<close>

theorem errors_exact_tag:
  "errors (analyze_trace tr) =
     map (error_entry_of (get_default (processes tr) Map.empty))
       (filter
          (\<lambda>sp. \<exists>tg\<in>set (get_default (tags sp) []).
                   tag_key tg = Some (JStr ''error'') \<and> tag_value tg = Some (JStr ''true''))
          (get_default (spans tr) []))"
  by (simp add: analyze_trace_def Let_def errors_loop_filter has_error_iff)

theorem errors_exact_tag_witness:
  "errors (analyze_trace tagged_trace) =
     [\<lparr>err_service = ''api'', err_operation = ''a'', err_duration = 10, err_logs = []\<rparr>]"
  using errors_exact_tag [of tagged_trace]
  by (simp add: tagged_trace_def example_simps)

subsection \<open>Spans whose service does not resolve\<close>

text \<open>
  C5 fails on the code. In \<open>orphan_trace\<close> neither span resolves to a service. The
  critical path, the error list and the long operations report both under
  \<open>unknown\<close>, but the loop of lines 86 to 91 appends a span to \<open>service_spans\<close> only
  inside the test that its process resolves: the services and the per-service durations
  come out empty, and both spans are missing from them.
\<close>

theorem unresolved_span_dropped_from_services:
  "services (analyze_trace orphan_trace) = [] \<and>
   service_durations (analyze_trace orphan_trace) = [] \<and>
   map cp_service (critical_path (analyze_trace orphan_trace)) = [''unknown'', ''unknown''] \<and>
   map err_service (errors (analyze_trace orphan_trace)) = [''unknown'', ''unknown''] \<and>
   map lo_service (long_operations (analyze_trace orphan_trace)) = [''unknown'', ''unknown'']"
  by (simp add: orphan_trace_def analyze_trace_def Let_def sort_reverse_def example_simps)

end
